theory Spec2Isabelle
  imports Main "HOL-Library.Word"
begin

section \<open>The journal client of \<open>src/App.tsx\<close>\<close>

text \<open>
  The repository is one React component, \<open>App\<close>. Its state is a group of \<open>useState\<close>
  cells; its handlers are asynchronous functions that read the cells, call the hosted
  backend (the \<open>supabase\<close> client) and write the cells back.

  The embedding is a state-passing one. A handler is a function from the responses the
  outside world gives to its calls (\<open>env\<close>) and the state before it to the state after
  it, paired with the list of the effects it performed, in program order: backend
  requests, \<open>console.error\<close> lines, the \<open>confirm\<close> prompt and timers. Each handler is run to
  its end against the responses of its own calls; the interleaving of two handlers that
  are in flight together is not part of this model.
\<close>

subsection \<open>Strings\<close>

text \<open>
  A JavaScript string is a sequence of UTF-16 code units. \<open>str\<close> embeds the ASCII
  literals of the source.
\<close>

type_synonym js_string = "16 word list"

definition str :: "string \<Rightarrow> js_string" where
  "str cs = map of_char cs"

text \<open>
  \<open>String.prototype.trim\<close> removes white space and line terminators from both ends.
  ECMAScript's WhiteSpace is TAB, VT, FF, ZWNBSP and the code points of the Unicode
  category Zs; its LineTerminator is LF, CR, LS and PS. All of them are single code units.
\<close>

definition isWhiteSpace :: "16 word \<Rightarrow> bool" where
  "isWhiteSpace c \<longleftrightarrow>
     c = 0x0009 \<or> c = 0x000B \<or> c = 0x000C \<or> c = 0xFEFF \<or>
     c = 0x0020 \<or> c = 0x00A0 \<or> c = 0x1680 \<or> (0x2000 \<le> c \<and> c \<le> 0x200A) \<or>
     c = 0x202F \<or> c = 0x205F \<or> c = 0x3000"

definition isLineTerminator :: "16 word \<Rightarrow> bool" where
  "isLineTerminator c \<longleftrightarrow> c = 0x000A \<or> c = 0x000D \<or> c = 0x2028 \<or> c = 0x2029"

definition isTrimmed :: "16 word \<Rightarrow> bool" where
  "isTrimmed c \<longleftrightarrow> isWhiteSpace c \<or> isLineTerminator c"

definition trim :: "js_string \<Rightarrow> js_string" where
  "trim s = rev (dropWhile isTrimmed (rev (dropWhile isTrimmed s)))"

subsection \<open>Data\<close>

text \<open>
  \<open>Session\<close> and its \<open>user\<close> come from the backend's type declarations: \<open>user\<close> is a
  mandatory field of a session, and the component reads nothing of a user but its \<open>id\<close>.
\<close>

record User =
  id_user :: js_string

record Session =
  user :: User
  access_token :: js_string

text \<open>
  \<open>interface JournalEntry { id; content; created_at; user_id }\<close>. The object that
  \<open>handleSaveEntry\<close> inserts has the last three fields and no \<open>id\<close> (the backend assigns
  it), so the entry is the inserted row extended by its \<open>id\<close>.
\<close>

record entry_row =
  user_id :: js_string
  content :: js_string
  created_at :: js_string

record JournalEntry = entry_row +
  id_entry :: js_string

text \<open>
  A value that is thrown, caught or returned in the \<open>error\<close> field of a response. The
  handlers ask one thing of it, \<open>err instanceof Error\<close>, and read \<open>err.message\<close> when
  the answer is yes. The other constructor is an object that is not an \<open>Error\<close>; it
  carries a message as well, which the handlers never read.
\<close>

datatype thrown = ErrorInstance js_string | PlainObject js_string

text \<open>\<open>err instanceof Error ? err.message : fallback\<close>\<close>

fun message_or :: "thrown \<Rightarrow> js_string \<Rightarrow> js_string" where
  "message_or (ErrorInstance m) fallback = m"
| "message_or (PlainObject m) fallback = fallback"

text \<open>The message an error value carries, whatever its class.\<close>

fun message_of :: "thrown \<Rightarrow> js_string" where
  "message_of (ErrorInstance m) = m"
| "message_of (PlainObject m) = m"

text \<open>The twelve \<open>useState\<close> cells of \<open>App\<close>, with the source's names.\<close>

record App_state =
  session :: "Session option"
  loading :: bool
  email :: js_string
  password :: js_string
  showPassword :: bool
  isLogin :: bool
  authError :: "js_string option"
  currentEntry :: js_string
  entries :: "JournalEntry list"
  saving :: bool
  error :: "js_string option"
  showSuccess :: bool

text \<open>The initial values of the cells.\<close>

definition initial :: App_state where
  "initial = \<lparr>session = None, loading = True, email = [], password = [],
     showPassword = False, isLogin = True, authError = None, currentEntry = [],
     entries = [], saving = False, error = None, showSuccess = False\<rparr>"

subsection \<open>Effects and the outside world\<close>

text \<open>The callback of the one timer the component starts: \<open>() => setShowSuccess(false)\<close>.\<close>

datatype timer_callback = SetShowSuccessFalse


text \<open>
  What a handler does to the world outside the state cells. The first eight are requests
  to the backend: \<open>Select\<close> is the query
  \<open>from('journal_entries').select('*').order('created_at', {ascending: false})\<close>,
  \<open>Insert r\<close> is \<open>from('journal_entries').insert([r])\<close> and \<open>Delete i\<close> is
  \<open>from('journal_entries').delete().eq('id', i)\<close>. \<open>SetTimeout f ms\<close> registers the callback
  \<open>f\<close> with a delay of \<open>ms\<close> milliseconds.
\<close>

datatype effect =
    AuthGetSession
  | AuthOnAuthStateChange
  | AuthSignInWithPassword js_string js_string
  | AuthSignUp js_string js_string
  | AuthSignOut
  | Select
  | Insert entry_row
  | Delete js_string
  | PreventDefault
  | Confirm js_string
  | ConsoleError js_string thrown
  | SetTimeout timer_callback nat

fun is_backend_call :: "effect \<Rightarrow> bool" where
  "is_backend_call (PreventDefault) = False"
| "is_backend_call (Confirm q) = False"
| "is_backend_call (ConsoleError l e) = False"
| "is_backend_call (SetTimeout f ms) = False"
| "is_backend_call c = True"

text \<open>The rows a handler asked the backend to insert, and the ids it asked it to delete.\<close>

fun inserts :: "effect list \<Rightarrow> entry_row list" where
  "inserts [] = []"
| "inserts (Insert r # es) = r # inserts es"
| "inserts (e # es) = inserts es"

fun deletes :: "effect list \<Rightarrow> js_string list" where
  "deletes [] = []"
| "deletes (Delete i # es) = i # deletes es"
| "deletes (e # es) = deletes es"

text \<open>The lines a handler wrote with \<open>console.error\<close>.\<close>

fun logged :: "effect list \<Rightarrow> (js_string \<times> thrown) list" where
  "logged [] = []"
| "logged (ConsoleError l e # es) = (l, e) # logged es"
| "logged (e # es) = logged es"

text \<open>
  The responses of the outside world to one handler's calls. The backend client resolves
  every request with an object \<open>{ data, error }\<close>; a pair stands for the two fields a
  handler destructures, and an \<open>error\<close> alone where the handler takes nothing else.
  \<open>getSession_response\<close> is \<open>({ data: { session } }, error)\<close>; the \<open>data\<close> of a select is the
  array of rows or \<open>null\<close>. \<open>confirm_answer\<close> is what the user answers to
  \<open>window.confirm\<close>, and \<open>now_iso\<close> is \<open>new Date().toISOString()\<close> at the time of the call.
  The responses are arbitrary: nothing is assumed of how the backend computes them.
\<close>

record env =
  getSession_response :: "Session option \<times> thrown option"
  select_response :: "JournalEntry list option \<times> thrown option"
  insert_response :: "thrown option"
  delete_response :: "thrown option"
  signIn_response :: "thrown option"
  signUp_response :: "thrown option"
  signOut_response :: "thrown option"
  confirm_answer :: bool
  now_iso :: js_string

subsection \<open>The handlers\<close>

text \<open>
  \<open>loadEntries\<close> (lines 48 to 60). \<open>if (error) throw error\<close> lands in the function's own
  \<open>catch\<close>, which writes the log line and nothing else. \<open>data || []\<close> is \<open>data\<close> unless
  it is \<open>null\<close>: an array is truthy, also the empty one.
\<close>

definition loadEntries :: "env \<Rightarrow> App_state \<Rightarrow> App_state \<times> effect list" where
  "loadEntries w s =
     (case select_response w of
        (data, Some err) \<Rightarrow> (s, [Select, ConsoleError (str ''Error loading entries:'') err])
      | (data, None) \<Rightarrow>
          (s\<lparr>entries := (case data of Some rows \<Rightarrow> rows | None \<Rightarrow> [])\<rparr>, [Select]))"

text \<open>
  The body of the effect hook (lines 27 to 46), run once when the component mounts:
  \<open>getSession()\<close> is requested, the session-change handler is registered, and the
  \<open>then\<close> callback runs on the response. The callback reads \<open>data.session\<close> only.
\<close>

definition getSession_then :: "env \<Rightarrow> Session option \<Rightarrow> App_state \<Rightarrow> App_state \<times> effect list" where
  "getSession_then w sess s =
     (let s1 = s\<lparr>session := sess, loading := False\<rparr> in
      case sess of
        Some u \<Rightarrow> loadEntries w s1
      | None \<Rightarrow> (s1, []))"

definition useEffect_mount :: "env \<Rightarrow> App_state \<Rightarrow> App_state \<times> effect list" where
  "useEffect_mount w s =
     (let (s1, effs) = getSession_then w (fst (getSession_response w)) s
      in (s1, [AuthGetSession, AuthOnAuthStateChange] @ effs))"

text \<open>
  The handler given to \<open>onAuthStateChange\<close> (lines 38 to 43), called by the backend with
  each new session, or \<open>null\<close>.
\<close>

definition onAuthStateChange_handler :: "env \<Rightarrow> Session option \<Rightarrow> App_state \<Rightarrow> App_state \<times> effect list" where
  "onAuthStateChange_handler w sess s =
     (let s1 = s\<lparr>session := sess\<rparr> in
      case sess of
        Some u \<Rightarrow> loadEntries w s1
      | None \<Rightarrow> (s1, []))"

text \<open>
  \<open>handleAuth\<close> (lines 62 to 84). A successful sign-up leaves the confirmation notice in
  \<open>authError\<close>.
\<close>

definition handleAuth :: "env \<Rightarrow> App_state \<Rightarrow> App_state \<times> effect list" where
  "handleAuth w s =
     (let s1 = s\<lparr>authError := None\<rparr> in
      if isLogin s then
        (case signIn_response w of
           Some err \<Rightarrow>
             (s1\<lparr>authError := Some (message_or err (str ''An error occurred''))\<rparr>,
              [PreventDefault, AuthSignInWithPassword (email s) (password s)])
         | None \<Rightarrow> (s1, [PreventDefault, AuthSignInWithPassword (email s) (password s)]))
      else
        (case signUp_response w of
           Some err \<Rightarrow>
             (s1\<lparr>authError := Some (message_or err (str ''An error occurred''))\<rparr>,
              [PreventDefault, AuthSignUp (email s) (password s)])
         | None \<Rightarrow>
             (s1\<lparr>authError := Some (str ''Check your email for the confirmation link!'')\<rparr>,
              [PreventDefault, AuthSignUp (email s) (password s)])))"

text \<open>\<open>handleSignOut\<close> (lines 86 to 90). The response of \<open>signOut\<close> is not read.\<close>

definition handleSignOut :: "env \<Rightarrow> App_state \<Rightarrow> App_state \<times> effect list" where
  "handleSignOut w s = (s\<lparr>entries := [], currentEntry := []\<rparr>, [AuthSignOut])"

text \<open>
  \<open>session?.user\<close>: \<open>undefined\<close> when the session is \<open>null\<close>, the session's user
  otherwise.
\<close>

definition session_user :: "Session option \<Rightarrow> User option" where
  "session_user sess = map_option user sess"

text \<open>
  The \<open>try\<close> block of \<open>handleSaveEntry\<close> (lines 107 to 131): the value it throws, or the
  state it leaves, with its effects. No cell is written before the last \<open>throw\<close>, so a
  thrown value leaves the state the block started in. \<open>loadEntries()\<close> is called without
  \<open>await\<close> and never rejects; its request and its write to \<open>entries\<close> are the last things
  the call causes.
\<close>

definition handleSaveEntry_try :: "env \<Rightarrow> App_state \<Rightarrow> (thrown + App_state) \<times> effect list" where
  "handleSaveEntry_try w s =
     (case getSession_response w of (currentSession, sessionError) \<Rightarrow>
        (case sessionError of
           Some e \<Rightarrow>
             (Inl (ErrorInstance (str ''Session expired. Please log in again.'')),
              [AuthGetSession])
         | None \<Rightarrow>
             (case currentSession of
                None \<Rightarrow>
                  (Inl (ErrorInstance (str ''Session expired. Please log in again.'')),
                   [AuthGetSession])
              | Some cs \<Rightarrow>
                  (let row = \<lparr>user_id = id_user (user cs),
                              content = currentEntry s,
                              created_at = now_iso w\<rparr>
                   in case insert_response w of
                        Some err \<Rightarrow>
                          (Inl err,
                           [AuthGetSession, Insert row,
                            ConsoleError (str ''Database error:'') err])
                      | None \<Rightarrow>
                          (let (s1, effs) =
                                 loadEntries w (s\<lparr>currentEntry := [], showSuccess := True\<rparr>)
                           in (Inr s1,
                               [AuthGetSession, Insert row,
                                SetTimeout SetShowSuccessFalse 3000] @ effs))))))"

text \<open>
  \<open>handleSaveEntry\<close> (lines 92 to 138): the two guards, then the \<open>try\<close> block with its
  \<open>catch\<close> and its \<open>finally\<close>. The content is the cell \<open>currentEntry\<close>.
\<close>

definition handleSaveEntry :: "env \<Rightarrow> App_state \<Rightarrow> App_state \<times> effect list" where
  "handleSaveEntry w s =
     (if session_user (session s) = None then
        (s\<lparr>error := Some (str ''You must be logged in to save entries'')\<rparr>, [])
      else if trim (currentEntry s) = [] then
        (s\<lparr>error := Some (str ''Entry cannot be empty'')\<rparr>, [])
      else
        (let s1 = s\<lparr>saving := True, error := None\<rparr> in
         case handleSaveEntry_try w s1 of
           (Inl err, effs) \<Rightarrow>
             (s1\<lparr>error := Some (message_or err (str ''Failed to save entry'')), saving := False\<rparr>,
              effs @ [ConsoleError (str ''Error saving entry:'') err])
         | (Inr s2, effs) \<Rightarrow> (s2\<lparr>saving := False\<rparr>, effs)))"

text \<open>
  \<open>handleDeleteEntry\<close> (lines 140 to 154). Its \<open>catch\<close> sets the error cell and writes
  no log line.
\<close>

definition handleDeleteEntry :: "env \<Rightarrow> js_string \<Rightarrow> App_state \<Rightarrow> App_state \<times> effect list" where
  "handleDeleteEntry w i s =
     (if \<not> confirm_answer w then
        (s, [Confirm (str ''Are you sure you want to delete this entry?'')])
      else
        (case delete_response w of
           Some err \<Rightarrow>
             (s\<lparr>error := Some (message_or err (str ''Failed to delete entry''))\<rparr>,
              [Confirm (str ''Are you sure you want to delete this entry?''), Delete i])
         | None \<Rightarrow>
             (let (s1, effs) = loadEntries w s
              in (s1, [Confirm (str ''Are you sure you want to delete this entry?''), Delete i] @ effs))))"

subsection \<open>Concrete inputs\<close>

text \<open>
  Two sessions of different users, two stored entries, a world in which every request
  succeeds, and three states of the component: signed in with a blank composer, signed in
  with the text \<open>" hi "\<close> in the composer, and signed out.
\<close>

definition session0 :: Session where
  "session0 = \<lparr>user = \<lparr>id_user = str ''u1''\<rparr>, access_token = str ''t1''\<rparr>"

definition session1 :: Session where
  "session1 = \<lparr>user = \<lparr>id_user = str ''u2''\<rparr>, access_token = str ''t2''\<rparr>"

definition entry0 :: JournalEntry where
  "entry0 = \<lparr>user_id = str ''u1'', content = str ''old'',
     created_at = str ''2024-01-01T00:00:00.000Z'', id_entry = str ''e0''\<rparr>"

definition entry1 :: JournalEntry where
  "entry1 = \<lparr>user_id = str ''u2'', content = str '' hi '',
     created_at = str ''2024-01-02T00:00:00.000Z'', id_entry = str ''e1''\<rparr>"

definition env_ok :: env where
  "env_ok = \<lparr>getSession_response = (Some session1, None),
     select_response = (Some [entry1, entry0], None),
     insert_response = None, delete_response = None, signIn_response = None,
     signUp_response = None, signOut_response = None, confirm_answer = True,
     now_iso = str ''2024-01-02T00:00:00.000Z''\<rparr>"

definition state_blank :: App_state where
  "state_blank = initial\<lparr>session := Some session0, loading := False,
     currentEntry := str ''   '', entries := [entry0]\<rparr>"

definition state_hi :: App_state where
  "state_hi = initial\<lparr>session := Some session0, loading := False,
     currentEntry := str '' hi '', entries := [entry0]\<rparr>"

definition state_anon :: App_state where
  "state_anon = initial\<lparr>loading := False, currentEntry := str '' hi '', entries := [entry0]\<rparr>"

text \<open>
  Worlds that differ from \<open>env_ok\<close> in one response: the session re-check finds no
  session, or returns an error; the insert fails with an object that is not an \<open>Error\<close>,
  or with one that is; the select fails.
\<close>

definition env_expired :: env where
  "env_expired = env_ok\<lparr>getSession_response := (None, None)\<rparr>"

definition env_session_error :: env where
  "env_session_error = env_ok\<lparr>getSession_response := (Some session1, Some (PlainObject (str ''offline'')))\<rparr>"

definition env_insert_rejected :: env where
  "env_insert_rejected = env_ok\<lparr>insert_response := Some (PlainObject (str ''duplicate key''))\<rparr>"

definition env_insert_thrown :: env where
  "env_insert_thrown = env_ok\<lparr>insert_response := Some (ErrorInstance (str ''duplicate key''))\<rparr>"

definition env_select_fails :: env where
  "env_select_fails = env_ok\<lparr>select_response := (None, Some (ErrorInstance (str ''timeout'')))\<rparr>"

text \<open>
  Three more worlds: the delete fails, the user declines the confirmation prompt, the
  sign-in fails.
\<close>

definition env_delete_fails :: env where
  "env_delete_fails = env_ok\<lparr>delete_response := Some (ErrorInstance (str ''forbidden''))\<rparr>"

definition env_declined :: env where
  "env_declined = env_ok\<lparr>confirm_answer := False\<rparr>"

definition env_signIn_fails :: env where
  "env_signIn_fails = env_ok\<lparr>signIn_response := Some (ErrorInstance (str ''Invalid login credentials''))\<rparr>"

section \<open>Properties\<close>

subsection \<open>Strings and sessions\<close>

lemma trim_blank: "trim (str ''   '') = []"
  by (simp add: trim_def isTrimmed_def isWhiteSpace_def isLineTerminator_def str_def)

lemma trim_hi: "trim (str '' hi '') = str ''hi''"
  by (simp add: trim_def isTrimmed_def isWhiteSpace_def isLineTerminator_def str_def)

lemma str_hi_not_Nil: "str ''hi'' \<noteq> []"
  by (simp add: str_def)

lemma dropWhile_rev_dropWhile:
  "dropWhile P (rev (dropWhile P xs)) = [] \<longleftrightarrow> dropWhile P xs = []"
proof (cases "dropWhile P xs")
  case Nil
  show ?thesis unfolding Nil by simp
next
  case (Cons y ys)
  then have "\<not> P y" using hd_dropWhile [of P xs] by simp
  moreover have "y \<in> set (rev (dropWhile P xs))" using Cons by simp
  ultimately have "dropWhile P (rev (dropWhile P xs)) \<noteq> []"
    unfolding dropWhile_eq_Nil_conv by blast
  with Cons show ?thesis by simp
qed

text \<open>The trimmed string is empty exactly when every code unit of the string is trimmed away.\<close>

lemma trim_empty_iff: "trim s = [] \<longleftrightarrow> list_all isTrimmed s"
  unfolding trim_def rev_is_Nil_conv dropWhile_rev_dropWhile
  by (simp add: list_all_iff)

text \<open>\<open>!session?.user\<close> holds exactly when the session cell is \<open>null\<close>.\<close>

lemma session_user_None: "session_user sess = None \<longleftrightarrow> sess = None"
  by (simp add: session_user_def)

subsection \<open>Saving: the two guards\<close>

text \<open>
  Claim C1. For every content string whose \<open>trim()\<close> is empty, \<open>saveEntry\<close> fails with
  a validation error (an error message is set), makes no backend call of any kind (it
  has no effect at all outside the state), and leaves the entry list unchanged. The
  message is the one of the empty entry when a session is present, and the one of the
  missing session otherwise; no other cell changes.
\<close>

theorem saveEntry_blank_content:
  assumes "trim (currentEntry s) = []"
  shows "snd (handleSaveEntry w s) = [] \<and>
         entries (fst (handleSaveEntry w s)) = entries s \<and>
         error (fst (handleSaveEntry w s)) =
           Some (if session_user (session s) = None
                 then str ''You must be logged in to save entries''
                 else str ''Entry cannot be empty'') \<and>
         fst (handleSaveEntry w s) = s\<lparr>error := error (fst (handleSaveEntry w s))\<rparr>"
  using assms by (simp add: handleSaveEntry_def)

theorem saveEntry_blank_content_witness:
  "trim (currentEntry state_blank) = [] \<and>
   snd (handleSaveEntry env_ok state_blank) = [] \<and>
   entries (fst (handleSaveEntry env_ok state_blank)) = [entry0] \<and>
   error (fst (handleSaveEntry env_ok state_blank)) = Some (str ''Entry cannot be empty'') \<and>
   trim (currentEntry initial) = [] \<and>
   snd (handleSaveEntry env_ok initial) = [] \<and>
   error (fst (handleSaveEntry env_ok initial)) = Some (str ''You must be logged in to save entries'')"
proof -
  have b: "trim (currentEntry state_blank) = []"
    by (simp add: state_blank_def initial_def trim_blank)
  have i: "trim (currentEntry initial) = []"
    by (simp add: initial_def trim_def)
  show ?thesis
    using b i saveEntry_blank_content [OF b, of env_ok] saveEntry_blank_content [OF i, of env_ok]
    by (simp add: state_blank_def initial_def session_user_def)
qed

text \<open>
  Claim C2. For every content string, if no session is present when \<open>saveEntry\<close> is
  called (\<open>session?.user\<close> is absent), it sets the message of the missing session and
  performs no backend write: it issues no request at all, and changes no other cell.
\<close>

theorem saveEntry_no_session:
  assumes "session_user (session s) = None"
  shows "handleSaveEntry w s =
           (s\<lparr>error := Some (str ''You must be logged in to save entries'')\<rparr>, []) \<and>
         inserts (snd (handleSaveEntry w s)) = [] \<and>
         list_all (\<lambda>e. \<not> is_backend_call e) (snd (handleSaveEntry w s))"
  using assms by (simp add: handleSaveEntry_def)

theorem saveEntry_no_session_witness:
  "session_user (session state_anon) = None \<and>
   trim (currentEntry state_anon) \<noteq> [] \<and>
   error (fst (handleSaveEntry env_ok state_anon)) =
     Some (str ''You must be logged in to save entries'') \<and>
   inserts (snd (handleSaveEntry env_ok state_anon)) = []"
proof -
  have a: "session_user (session state_anon) = None"
    by (simp add: state_anon_def initial_def session_user_def)
  show ?thesis
    using a saveEntry_no_session [OF a, of env_ok]
    by (simp add: state_anon_def initial_def trim_hi str_hi_not_Nil)
qed

subsection \<open>Effect lists\<close>

lemma inserts_append: "inserts (xs @ ys) = inserts xs @ inserts ys"
  by (induction xs rule: inserts.induct) simp_all

lemma logged_append: "logged (xs @ ys) = logged xs @ logged ys"
  by (induction xs rule: logged.induct) simp_all

lemma deletes_append: "deletes (xs @ ys) = deletes xs @ deletes ys"
  by (induction xs rule: deletes.induct) simp_all

subsection \<open>The entry refresh\<close>

text \<open>The two outcomes of \<open>loadEntries\<close>, and what follows from them.\<close>

lemma loadEntries_failure:
  "snd (select_response w) = Some err \<Longrightarrow>
     loadEntries w s = (s, [Select, ConsoleError (str ''Error loading entries:'') err])"
  by (cases "select_response w") (simp add: loadEntries_def)

lemma loadEntries_success:
  "snd (select_response w) = None \<Longrightarrow>
     loadEntries w s =
       (s\<lparr>entries := (case fst (select_response w) of Some rows \<Rightarrow> rows | None \<Rightarrow> [])\<rparr>, [Select])"
  by (cases "select_response w") (simp add: loadEntries_def)

lemma loadEntries_state:
  "fst (loadEntries w s) = s\<lparr>entries := entries (fst (loadEntries w s))\<rparr>"
  by (cases "snd (select_response w)") (simp_all add: loadEntries_failure loadEntries_success)

lemma loadEntries_effects:
  "snd (loadEntries w s) =
     Select # (case snd (select_response w) of
                 Some err \<Rightarrow> [ConsoleError (str ''Error loading entries:'') err]
               | None \<Rightarrow> [])"
  by (cases "snd (select_response w)") (simp_all add: loadEntries_failure loadEntries_success)


lemma loadEntries_inserts: "inserts (snd (loadEntries w s)) = []"
  by (simp add: loadEntries_effects split: option.split)

lemma loadEntries_deletes: "deletes (snd (loadEntries w s)) = []"
  by (simp add: loadEntries_effects split: option.split)

lemma loadEntries_logged:
  "logged (snd (loadEntries w s)) =
     (case snd (select_response w) of
        Some err \<Rightarrow> [(str ''Error loading entries:'', err)]
      | None \<Rightarrow> [])"
  by (simp add: loadEntries_effects split: option.split)

subsection \<open>Saving: past the guards\<close>

text \<open>
  The three outcomes of \<open>handleSaveEntry\<close> past its guards: the re-check fails, the
  insert fails, the insert succeeds.
\<close>

lemma handleSaveEntry_try_expired:
  assumes "snd (getSession_response w) \<noteq> None \<or> fst (getSession_response w) = None"
  shows "handleSaveEntry_try w s =
    (Inl (ErrorInstance (str ''Session expired. Please log in again.'')), [AuthGetSession])"
proof (cases "getSession_response w")
  case (Pair currentSession sessionError)
  with assms show ?thesis
    by (cases sessionError; cases currentSession) (simp_all add: handleSaveEntry_try_def)
qed

lemma handleSaveEntry_expired:
  assumes "session_user (session s) \<noteq> None" and "trim (currentEntry s) \<noteq> []"
    and "snd (getSession_response w) \<noteq> None \<or> fst (getSession_response w) = None"
  shows "handleSaveEntry w s =
    (s\<lparr>saving := False, error := Some (str ''Session expired. Please log in again.'')\<rparr>,
     [AuthGetSession,
      ConsoleError (str ''Error saving entry:'')
        (ErrorInstance (str ''Session expired. Please log in again.''))])"
  using assms(1,2)
  by (simp add: handleSaveEntry_def handleSaveEntry_try_expired [OF assms(3)])

lemma handleSaveEntry_insert_failed:
  assumes "session_user (session s) \<noteq> None" and "trim (currentEntry s) \<noteq> []"
    and "getSession_response w = (Some cs, None)" and "insert_response w = Some err"
  shows "handleSaveEntry w s =
    (s\<lparr>saving := False, error := Some (message_or err (str ''Failed to save entry''))\<rparr>,
     [AuthGetSession,
      Insert \<lparr>user_id = id_user (user cs), content = currentEntry s, created_at = now_iso w\<rparr>,
      ConsoleError (str ''Database error:'') err,
      ConsoleError (str ''Error saving entry:'') err])"
  using assms
  by (simp add: handleSaveEntry_def handleSaveEntry_try_def)

lemma handleSaveEntry_inserted:
  assumes "session_user (session s) \<noteq> None" and "trim (currentEntry s) \<noteq> []"
    and "getSession_response w = (Some cs, None)" and "insert_response w = None"
  shows "handleSaveEntry w s =
    ((fst (loadEntries w s))\<lparr>currentEntry := [], saving := False, error := None, showSuccess := True\<rparr>,
     [AuthGetSession,
      Insert \<lparr>user_id = id_user (user cs), content = currentEntry s, created_at = now_iso w\<rparr>,
      SetTimeout SetShowSuccessFalse 3000] @ snd (loadEntries w s))"
  using assms
  by (cases "snd (select_response w)")
     (simp_all add: handleSaveEntry_def handleSaveEntry_try_def
        loadEntries_failure loadEntries_success)

text \<open>
  Claim C3. Past the session-presence and non-empty-content checks, \<open>saveEntry\<close>
  re-validates the session with a fresh \<open>getSession\<close> request, which is the first thing
  it asks of the backend. If the re-check returns an error or no session, \<open>saveEntry\<close>
  fails with the message \<open>Session expired. Please log in again.\<close> and no insert is issued;
  the entry list and the composer stay as they were.
\<close>

theorem saveEntry_recheck:
  assumes "session_user (session s) \<noteq> None" and "trim (currentEntry s) \<noteq> []"
  shows "(\<exists>rest. snd (handleSaveEntry w s) = AuthGetSession # rest) \<and>
         (snd (getSession_response w) \<noteq> None \<or> fst (getSession_response w) = None \<longrightarrow>
            error (fst (handleSaveEntry w s)) = Some (str ''Session expired. Please log in again.'') \<and>
            inserts (snd (handleSaveEntry w s)) = [] \<and>
            entries (fst (handleSaveEntry w s)) = entries s \<and>
            currentEntry (fst (handleSaveEntry w s)) = currentEntry s)"
proof (cases "snd (getSession_response w) \<noteq> None \<or> fst (getSession_response w) = None")
  case True
  show ?thesis
    by (simp add: handleSaveEntry_expired [OF assms True])
next
  case False
  then obtain cs where ok: "getSession_response w = (Some cs, None)"
    by (cases "getSession_response w") auto
  show ?thesis
  proof (cases "insert_response w")
    case None
    show ?thesis using False
      by (simp add: handleSaveEntry_inserted [OF assms ok None])
  next
    case (Some err)
    show ?thesis using False
      by (simp add: handleSaveEntry_insert_failed [OF assms ok Some])
  qed
qed


text \<open>The signed-in state with text in the composer passes both guards.\<close>

lemma state_hi_guards:
  "session_user (session state_hi) \<noteq> None" "trim (currentEntry state_hi) \<noteq> []"
  by (simp_all add: state_hi_def initial_def session_user_def trim_hi str_hi_not_Nil)

theorem saveEntry_recheck_witness:
  "session_user (session state_hi) \<noteq> None \<and> trim (currentEntry state_hi) \<noteq> [] \<and>
   fst (getSession_response env_expired) = None \<and>
   snd (getSession_response env_session_error) \<noteq> None \<and>
   (\<exists>rest. snd (handleSaveEntry env_expired state_hi) = AuthGetSession # rest) \<and>
   error (fst (handleSaveEntry env_expired state_hi)) =
     Some (str ''Session expired. Please log in again.'') \<and>
   inserts (snd (handleSaveEntry env_expired state_hi)) = [] \<and>
   error (fst (handleSaveEntry env_session_error state_hi)) =
     Some (str ''Session expired. Please log in again.'') \<and>
   inserts (snd (handleSaveEntry env_session_error state_hi)) = []"
  using state_hi_guards
    saveEntry_recheck [OF state_hi_guards, of env_expired]
    saveEntry_recheck [OF state_hi_guards, of env_session_error]
  by (simp add: env_expired_def env_session_error_def env_ok_def)

text \<open>
  Claim C4. For every content that is not empty after trimming, with a valid re-checked
  session, \<open>saveEntry\<close> asks for exactly one insert, right after the re-check. The row has
  \<open>user_id\<close> equal to the user id of the re-checked session (not of the session cell),
  \<open>content\<close> equal to the input as it is (not trimmed), and \<open>created_at\<close> equal to the
  current time as \<open>toISOString\<close> gives it.
\<close>

theorem saveEntry_inserted_row:
  assumes "session_user (session s) \<noteq> None" and "trim (currentEntry s) \<noteq> []"
    and "getSession_response w = (Some cs, None)"
  shows "inserts (snd (handleSaveEntry w s)) =
           [\<lparr>user_id = id_user (user cs), content = currentEntry s, created_at = now_iso w\<rparr>] \<and>
         (\<exists>rest. snd (handleSaveEntry w s) =
            AuthGetSession #
            Insert \<lparr>user_id = id_user (user cs), content = currentEntry s,
                    created_at = now_iso w\<rparr> # rest)"
proof (cases "insert_response w")
  case None
  show ?thesis
    by (simp add: handleSaveEntry_inserted [OF assms None] inserts_append loadEntries_inserts)
next
  case (Some err)
  show ?thesis
    by (simp add: handleSaveEntry_insert_failed [OF assms Some])
qed

theorem saveEntry_inserted_row_witness:
  "session_user (session state_hi) \<noteq> None \<and> trim (currentEntry state_hi) \<noteq> [] \<and>
   getSession_response env_ok = (Some session1, None) \<and>
   session state_hi = Some session0 \<and>
   inserts (snd (handleSaveEntry env_ok state_hi)) =
     [\<lparr>user_id = str ''u2'', content = str '' hi '',
       created_at = str ''2024-01-02T00:00:00.000Z''\<rparr>]"
proof -
  have r: "getSession_response env_ok = (Some session1, None)"
    by (simp add: env_ok_def)
  show ?thesis
    using state_hi_guards r saveEntry_inserted_row [OF state_hi_guards r]
    by (simp add: state_hi_def initial_def session1_def env_ok_def)
qed

text \<open>
  Claim C5 says that a failed insert surfaces the backend error's message. The handler
  reads the message only of an \<open>Error\<close> instance: when the insert fails with an object of
  another class, carrying the message \<open>duplicate key\<close>, the error cell holds the fixed text
  \<open>Failed to save entry\<close>.
\<close>

theorem saveEntry_insert_message_counterexample:
  "session_user (session state_hi) \<noteq> None \<and> trim (currentEntry state_hi) \<noteq> [] \<and>
   getSession_response env_insert_rejected = (Some session1, None) \<and>
   insert_response env_insert_rejected = Some (PlainObject (str ''duplicate key'')) \<and>
   error (fst (handleSaveEntry env_insert_rejected state_hi)) = Some (str ''Failed to save entry'') \<and>
   error (fst (handleSaveEntry env_insert_rejected state_hi)) \<noteq>
     Some (message_of (PlainObject (str ''duplicate key'')))"
proof -
  have r: "getSession_response env_insert_rejected = (Some session1, None)"
    and i: "insert_response env_insert_rejected = Some (PlainObject (str ''duplicate key''))"
    by (simp_all add: env_insert_rejected_def env_ok_def)
  have "str ''Failed to save entry'' \<noteq> str ''duplicate key''"
    by (simp add: str_def)
  then show ?thesis
    using state_hi_guards r i
    by (simp add: handleSaveEntry_insert_failed [OF state_hi_guards r i])
qed

text \<open>
  Claim C5, amended. If the backend insert fails, \<open>saveEntry\<close> sets the error cell to the
  backend error's message when the error is an \<open>Error\<close> instance and to the fixed text
  \<open>Failed to save entry\<close> otherwise. The composer input is left unchanged (it is not
  cleared), the success flag is not set and no timer is started; no cell but \<open>error\<close> and
  \<open>saving\<close> changes, and the error is logged twice.
\<close>

theorem saveEntry_insert_failure:
  assumes "session_user (session s) \<noteq> None" and "trim (currentEntry s) \<noteq> []"
    and "getSession_response w = (Some cs, None)" and "insert_response w = Some err"
  shows "error (fst (handleSaveEntry w s)) =
           Some (case err of ErrorInstance m \<Rightarrow> m | PlainObject m \<Rightarrow> str ''Failed to save entry'') \<and>
         currentEntry (fst (handleSaveEntry w s)) = currentEntry s \<and>
         showSuccess (fst (handleSaveEntry w s)) = showSuccess s \<and>
         fst (handleSaveEntry w s) =
           s\<lparr>saving := False, error := error (fst (handleSaveEntry w s))\<rparr> \<and>
         snd (handleSaveEntry w s) =
           [AuthGetSession,
            Insert \<lparr>user_id = id_user (user cs), content = currentEntry s, created_at = now_iso w\<rparr>,
            ConsoleError (str ''Database error:'') err,
            ConsoleError (str ''Error saving entry:'') err]"
  by (cases err) (simp_all add: handleSaveEntry_insert_failed [OF assms])

theorem saveEntry_insert_failure_witness:
  "session_user (session state_hi) \<noteq> None \<and> trim (currentEntry state_hi) \<noteq> [] \<and>
   getSession_response env_insert_thrown = (Some session1, None) \<and>
   insert_response env_insert_thrown = Some (ErrorInstance (str ''duplicate key'')) \<and>
   error (fst (handleSaveEntry env_insert_thrown state_hi)) = Some (str ''duplicate key'') \<and>
   currentEntry (fst (handleSaveEntry env_insert_thrown state_hi)) = str '' hi '' \<and>
   showSuccess (fst (handleSaveEntry env_insert_thrown state_hi)) = False \<and>
   getSession_response env_insert_rejected = (Some session1, None) \<and>
   insert_response env_insert_rejected = Some (PlainObject (str ''duplicate key'')) \<and>
   error (fst (handleSaveEntry env_insert_rejected state_hi)) = Some (str ''Failed to save entry'') \<and>
   currentEntry (fst (handleSaveEntry env_insert_rejected state_hi)) = str '' hi ''"
proof -
  have r: "getSession_response env_insert_thrown = (Some session1, None)"
    and i: "insert_response env_insert_thrown = Some (ErrorInstance (str ''duplicate key''))"
    and r': "getSession_response env_insert_rejected = (Some session1, None)"
    and i': "insert_response env_insert_rejected = Some (PlainObject (str ''duplicate key''))"
    by (simp_all add: env_insert_thrown_def env_insert_rejected_def env_ok_def)
  show ?thesis
    using state_hi_guards r i r' i'
      saveEntry_insert_failure [OF state_hi_guards r i]
      saveEntry_insert_failure [OF state_hi_guards r' i']
    by (simp add: state_hi_def initial_def)
qed



subsection \<open>Listing\<close>

text \<open>
  Claim C7. For every prior entry list, if the backend list query fails, \<open>listEntries\<close>
  leaves the cached list as it was: the same elements in the same order. It changes no
  cell at all, and writes one log line.
\<close>

theorem loadEntries_failure_keeps_list:
  assumes "snd (select_response w) = Some err"
  shows "entries (fst (loadEntries w s)) = entries s \<and>
         fst (loadEntries w s) = s \<and>
         snd (loadEntries w s) = [Select, ConsoleError (str ''Error loading entries:'') err]"
  by (simp add: loadEntries_failure [OF assms])

theorem loadEntries_failure_keeps_list_witness:
  "snd (select_response env_select_fails) = Some (ErrorInstance (str ''timeout'')) \<and>
   entries state_hi = [entry0] \<and>
   entries (fst (loadEntries env_select_fails state_hi)) = [entry0] \<and>
   fst (loadEntries env_select_fails state_hi) = state_hi"
proof -
  have f: "snd (select_response env_select_fails) = Some (ErrorInstance (str ''timeout''))"
    by (simp add: env_select_fails_def)
  show ?thesis
    using f loadEntries_failure_keeps_list [OF f, of state_hi]
    by (simp add: state_hi_def initial_def)
qed

subsection \<open>Deleting, signing in, session events\<close>

text \<open>The three outcomes of \<open>handleDeleteEntry\<close>.\<close>

lemma handleDeleteEntry_declined:
  "\<not> confirm_answer w \<Longrightarrow>
     handleDeleteEntry w i s = (s, [Confirm (str ''Are you sure you want to delete this entry?'')])"
  by (simp add: handleDeleteEntry_def)

lemma handleDeleteEntry_failed:
  "confirm_answer w \<Longrightarrow> delete_response w = Some err \<Longrightarrow>
     handleDeleteEntry w i s =
       (s\<lparr>error := Some (message_or err (str ''Failed to delete entry''))\<rparr>,
        [Confirm (str ''Are you sure you want to delete this entry?''), Delete i])"
  by (simp add: handleDeleteEntry_def)

lemma handleDeleteEntry_deleted:
  "confirm_answer w \<Longrightarrow> delete_response w = None \<Longrightarrow>
     handleDeleteEntry w i s =
       (fst (loadEntries w s),
        [Confirm (str ''Are you sure you want to delete this entry?''), Delete i] @
        snd (loadEntries w s))"
  by (simp add: handleDeleteEntry_def split_def Let_def)

text \<open>A failed sign-in or sign-up leaves its message in \<open>authError\<close>.\<close>

lemma handleAuth_failed:
  "(if isLogin s then signIn_response w else signUp_response w) = Some err \<Longrightarrow>
     authError (fst (handleAuth w s)) = Some (message_or err (str ''An error occurred'')) \<and>
     logged (snd (handleAuth w s)) = []"
  by (simp add: handleAuth_def split: if_splits)

text \<open>The refresh writes neither the error cell nor the session cell.\<close>

lemma loadEntries_error: "error (fst (loadEntries w s)) = error s"
  by (cases "snd (select_response w)") (simp_all add: loadEntries_failure loadEntries_success)

lemma loadEntries_session: "session (fst (loadEntries w s)) = session s"
  by (cases "snd (select_response w)") (simp_all add: loadEntries_failure loadEntries_success)

text \<open>The initial load and the session-change handler leave the error cell alone.\<close>

lemma useEffect_mount_error: "error (fst (useEffect_mount w s)) = error s"
  by (cases "fst (getSession_response w)")
     (simp_all add: useEffect_mount_def getSession_then_def split_def Let_def loadEntries_error)

lemma useEffect_mount_logged:
  "logged (snd (useEffect_mount w s)) =
     (case fst (getSession_response w) of
        Some u \<Rightarrow> logged (snd (loadEntries w s))
      | None \<Rightarrow> [])"
  by (cases "fst (getSession_response w)")
     (simp_all add: useEffect_mount_def getSession_then_def split_def Let_def loadEntries_logged)

lemma onAuthStateChange_handler_present:
  "onAuthStateChange_handler w (Some u) s = loadEntries w (s\<lparr>session := Some u\<rparr>)"
  by (simp add: onAuthStateChange_handler_def)

lemma onAuthStateChange_handler_absent:
  "onAuthStateChange_handler w None s = (s\<lparr>session := None\<rparr>, [])"
  by (simp add: onAuthStateChange_handler_def)

lemma onAuthStateChange_handler_logged:
  "logged (snd (onAuthStateChange_handler w sess s)) =
     (case sess of
        Some u \<Rightarrow> logged (snd (loadEntries w s))
      | None \<Rightarrow> [])"
  by (cases sess)
     (simp_all add: onAuthStateChange_handler_absent onAuthStateChange_handler_present
        loadEntries_logged)

lemma onAuthStateChange_handler_error:
  "error (fst (onAuthStateChange_handler w sess s)) = error s"
  by (cases sess)
     (simp_all add: onAuthStateChange_handler_absent onAuthStateChange_handler_present
        loadEntries_error)

subsection \<open>Where failures go\<close>

text \<open>
  Claim C8 says that a \<open>listEntries\<close> failure during a post-mutation refresh is surfaced
  as an error message. After a save whose insert succeeds and whose refresh fails, the
  error cell is empty: the failure is in the log and nowhere else.
\<close>

theorem refresh_failure_counterexample:
  "session_user (session state_hi) \<noteq> None \<and> trim (currentEntry state_hi) \<noteq> [] \<and>
   getSession_response env_select_fails = (Some session1, None) \<and>
   insert_response env_select_fails = None \<and>
   snd (select_response env_select_fails) = Some (ErrorInstance (str ''timeout'')) \<and>
   error (fst (handleSaveEntry env_select_fails state_hi)) = None \<and>
   logged (snd (handleSaveEntry env_select_fails state_hi)) =
     [(str ''Error loading entries:'', ErrorInstance (str ''timeout''))]"
proof -
  have r: "getSession_response env_select_fails = (Some session1, None)"
    and i: "insert_response env_select_fails = None"
    and f: "snd (select_response env_select_fails) = Some (ErrorInstance (str ''timeout''))"
    by (simp_all add: env_select_fails_def env_ok_def)
  show ?thesis
    using state_hi_guards r i f
    by (simp add: handleSaveEntry_inserted [OF state_hi_guards r i] loadEntries_failure [OF f])
qed

text \<open>
  Claim C8, amended. Every failure of \<open>saveEntry\<close> (missing session, empty content, failed
  session re-check, failed insert), of the delete request of \<open>deleteEntry\<close> and of sign-in
  or sign-up is surfaced as a message string stored in component-local error state
  (\<open>error\<close>; \<open>authError\<close> for sign-in and sign-up). Of these, only the failures inside the
  \<open>try\<close> block of \<open>saveEntry\<close> (re-check, insert) are logged as well. Every
  \<open>listEntries\<close> failure is logged only and sets no error state, on the initial load, on
  a session change and during a post-mutation refresh alike: after a save the error
  state is empty, after a delete it is as it was. The response of \<open>signOut\<close> is never read.
\<close>

theorem failures_surfaced_or_logged:
  "(session_user (session s) = None \<or> trim (currentEntry s) = [] \<longrightarrow>
      error (fst (handleSaveEntry w s)) \<noteq> None \<and>
      logged (snd (handleSaveEntry w s)) = []) \<and>
   (session_user (session s) \<noteq> None \<and> trim (currentEntry s) \<noteq> [] \<longrightarrow>
      (snd (getSession_response w) \<noteq> None \<or> fst (getSession_response w) = None \<longrightarrow>
         error (fst (handleSaveEntry w s)) = Some (str ''Session expired. Please log in again.'') \<and>
         logged (snd (handleSaveEntry w s)) =
           [(str ''Error saving entry:'',
             ErrorInstance (str ''Session expired. Please log in again.''))]) \<and>
      (getSession_response w = (Some cs, None) \<and> insert_response w = Some err \<longrightarrow>
         error (fst (handleSaveEntry w s)) = Some (message_or err (str ''Failed to save entry'')) \<and>
         logged (snd (handleSaveEntry w s)) =
           [(str ''Database error:'', err), (str ''Error saving entry:'', err)]) \<and>
      (getSession_response w = (Some cs, None) \<and> insert_response w = None \<and>
       snd (select_response w) = Some err \<longrightarrow>
         error (fst (handleSaveEntry w s)) = None \<and>
         logged (snd (handleSaveEntry w s)) = [(str ''Error loading entries:'', err)])) \<and>
   (confirm_answer w \<and> delete_response w = Some err \<longrightarrow>
      error (fst (handleDeleteEntry w i s)) = Some (message_or err (str ''Failed to delete entry'')) \<and>
      logged (snd (handleDeleteEntry w i s)) = []) \<and>
   (confirm_answer w \<and> delete_response w = None \<and> snd (select_response w) = Some err \<longrightarrow>
      error (fst (handleDeleteEntry w i s)) = error s \<and>
      logged (snd (handleDeleteEntry w i s)) = [(str ''Error loading entries:'', err)]) \<and>
   ((if isLogin s then signIn_response w else signUp_response w) = Some err \<longrightarrow>
      authError (fst (handleAuth w s)) = Some (message_or err (str ''An error occurred'')) \<and>
      logged (snd (handleAuth w s)) = []) \<and>
   (snd (select_response w) = Some err \<longrightarrow>
      fst (loadEntries w s) = s \<and>
      logged (snd (loadEntries w s)) = [(str ''Error loading entries:'', err)] \<and>
      error (fst (useEffect_mount w s)) = error s \<and>
      logged (snd (useEffect_mount w s)) =
        (case fst (getSession_response w) of
           Some u \<Rightarrow> [(str ''Error loading entries:'', err)]
         | None \<Rightarrow> []) \<and>
      error (fst (onAuthStateChange_handler w sess s)) = error s \<and>
      logged (snd (onAuthStateChange_handler w sess s)) =
        (case sess of
           Some u \<Rightarrow> [(str ''Error loading entries:'', err)]
         | None \<Rightarrow> [])) \<and>
   handleSignOut (w\<lparr>signOut_response := r\<rparr>) s = handleSignOut w s \<and>
   error (fst (handleSignOut w s)) = error s \<and>
   logged (snd (handleSignOut w s)) = []"
proof -
  have guards: "session_user (session s) = None \<or> trim (currentEntry s) = [] \<longrightarrow>
      error (fst (handleSaveEntry w s)) \<noteq> None \<and> logged (snd (handleSaveEntry w s)) = []"
    by (simp add: handleSaveEntry_def)
  have tried: "session_user (session s) \<noteq> None \<and> trim (currentEntry s) \<noteq> [] \<longrightarrow>
      (snd (getSession_response w) \<noteq> None \<or> fst (getSession_response w) = None \<longrightarrow>
         error (fst (handleSaveEntry w s)) = Some (str ''Session expired. Please log in again.'') \<and>
         logged (snd (handleSaveEntry w s)) =
           [(str ''Error saving entry:'',
             ErrorInstance (str ''Session expired. Please log in again.''))]) \<and>
      (getSession_response w = (Some cs, None) \<and> insert_response w = Some err \<longrightarrow>
         error (fst (handleSaveEntry w s)) = Some (message_or err (str ''Failed to save entry'')) \<and>
         logged (snd (handleSaveEntry w s)) =
           [(str ''Database error:'', err), (str ''Error saving entry:'', err)]) \<and>
      (getSession_response w = (Some cs, None) \<and> insert_response w = None \<and>
       snd (select_response w) = Some err \<longrightarrow>
         error (fst (handleSaveEntry w s)) = None \<and>
         logged (snd (handleSaveEntry w s)) = [(str ''Error loading entries:'', err)])"
    by (simp add: handleSaveEntry_expired handleSaveEntry_insert_failed
          handleSaveEntry_inserted loadEntries_failure)
  have del: "confirm_answer w \<and> delete_response w = Some err \<longrightarrow>
      error (fst (handleDeleteEntry w i s)) = Some (message_or err (str ''Failed to delete entry'')) \<and>
      logged (snd (handleDeleteEntry w i s)) = []"
    by (simp add: handleDeleteEntry_failed)
  have del_refresh: "confirm_answer w \<and> delete_response w = None \<and>
      snd (select_response w) = Some err \<longrightarrow>
      error (fst (handleDeleteEntry w i s)) = error s \<and>
      logged (snd (handleDeleteEntry w i s)) = [(str ''Error loading entries:'', err)]"
    by (simp add: handleDeleteEntry_deleted loadEntries_failure)
  have auth: "(if isLogin s then signIn_response w else signUp_response w) = Some err \<longrightarrow>
      authError (fst (handleAuth w s)) = Some (message_or err (str ''An error occurred'')) \<and>
      logged (snd (handleAuth w s)) = []"
    using handleAuth_failed [of s w err] by blast
  have load: "snd (select_response w) = Some err \<longrightarrow>
      fst (loadEntries w s) = s \<and>
      logged (snd (loadEntries w s)) = [(str ''Error loading entries:'', err)] \<and>
      error (fst (useEffect_mount w s)) = error s \<and>
      logged (snd (useEffect_mount w s)) =
        (case fst (getSession_response w) of
           Some u \<Rightarrow> [(str ''Error loading entries:'', err)]
         | None \<Rightarrow> []) \<and>
      error (fst (onAuthStateChange_handler w sess s)) = error s \<and>
      logged (snd (onAuthStateChange_handler w sess s)) =
        (case sess of
           Some u \<Rightarrow> [(str ''Error loading entries:'', err)]
         | None \<Rightarrow> [])"
    by (simp add: loadEntries_failure useEffect_mount_error useEffect_mount_logged
          onAuthStateChange_handler_error onAuthStateChange_handler_logged
          split: option.split)
  have out: "handleSignOut (w\<lparr>signOut_response := r\<rparr>) s = handleSignOut w s \<and>
      error (fst (handleSignOut w s)) = error s \<and> logged (snd (handleSignOut w s)) = []"
    by (simp add: handleSignOut_def)
  show ?thesis
    by (rule conjI [OF guards conjI [OF tried conjI [OF del conjI [OF del_refresh
          conjI [OF auth conjI [OF load out]]]]]])
qed


theorem failures_surfaced_or_logged_witness:
  "trim (currentEntry state_blank) = [] \<and>
   error (fst (handleSaveEntry env_ok state_blank)) \<noteq> None \<and>
   fst (getSession_response env_expired) = None \<and>
   error (fst (handleSaveEntry env_expired state_hi)) =
     Some (str ''Session expired. Please log in again.'') \<and>
   insert_response env_insert_rejected = Some (PlainObject (str ''duplicate key'')) \<and>
   error (fst (handleSaveEntry env_insert_rejected state_hi)) = Some (str ''Failed to save entry'') \<and>
   logged (snd (handleSaveEntry env_insert_rejected state_hi)) =
     [(str ''Database error:'', PlainObject (str ''duplicate key'')),
      (str ''Error saving entry:'', PlainObject (str ''duplicate key''))] \<and>
   snd (select_response env_select_fails) = Some (ErrorInstance (str ''timeout'')) \<and>
   error (fst (handleSaveEntry env_select_fails state_hi)) = None \<and>
   fst (loadEntries env_select_fails state_hi) = state_hi \<and>
   error (fst (handleDeleteEntry env_select_fails (str ''e0'') state_hi)) = None \<and>
   logged (snd (handleDeleteEntry env_select_fails (str ''e0'') state_hi)) =
     [(str ''Error loading entries:'', ErrorInstance (str ''timeout''))] \<and>
   delete_response env_delete_fails = Some (ErrorInstance (str ''forbidden'')) \<and>
   error (fst (handleDeleteEntry env_delete_fails (str ''e0'') state_hi)) = Some (str ''forbidden'') \<and>
   logged (snd (handleDeleteEntry env_delete_fails (str ''e0'') state_hi)) = [] \<and>
   signIn_response env_signIn_fails = Some (ErrorInstance (str ''Invalid login credentials'')) \<and>
   authError (fst (handleAuth env_signIn_fails state_anon)) =
     Some (str ''Invalid login credentials'')"
proof -
  have blank: "trim (currentEntry state_blank) = []"
    by (simp add: state_blank_def initial_def trim_blank)
  have responses:
    "fst (getSession_response env_expired) = None"
    "getSession_response env_insert_rejected = (Some session1, None)"
    "insert_response env_insert_rejected = Some (PlainObject (str ''duplicate key''))"
    "getSession_response env_select_fails = (Some session1, None)"
    "insert_response env_select_fails = None"
    "snd (select_response env_select_fails) = Some (ErrorInstance (str ''timeout''))"
    "confirm_answer env_select_fails" "delete_response env_select_fails = None"
    "confirm_answer env_delete_fails"
    "delete_response env_delete_fails = Some (ErrorInstance (str ''forbidden''))"
    "signIn_response env_signIn_fails = Some (ErrorInstance (str ''Invalid login credentials''))"
    "isLogin state_anon" "error state_hi = None"
    by (simp_all add: env_expired_def env_insert_rejected_def env_select_fails_def
          env_delete_fails_def env_signIn_fails_def env_ok_def state_anon_def state_hi_def
          initial_def)
  show ?thesis
    using blank responses state_hi_guards
      failures_surfaced_or_logged [where s = state_blank and w = env_ok]
      failures_surfaced_or_logged [where s = state_hi and w = env_expired]
      failures_surfaced_or_logged [where s = state_hi and w = env_insert_rejected
        and cs = session1 and err = "PlainObject (str ''duplicate key'')"]
      failures_surfaced_or_logged [where s = state_hi and w = env_select_fails
        and cs = session1 and err = "ErrorInstance (str ''timeout'')" and i = "str ''e0''"]
      failures_surfaced_or_logged [where s = state_hi and w = env_delete_fails
        and err = "ErrorInstance (str ''forbidden'')" and i = "str ''e0''"]
      failures_surfaced_or_logged [where s = state_anon and w = env_signIn_fails
        and err = "ErrorInstance (str ''Invalid login credentials'')"]
    by simp
qed

subsection \<open>Session events\<close>

text \<open>
  Claim C9. For every session-change event delivered by the backend, the registered
  handler triggers an entry-list refresh when the new session is present, and clears the
  entry list when the new session is absent. The first half holds: with a session the
  handler stores it and runs \<open>loadEntries\<close>. The second does not hold of the code. On an
  event with no session the handler writes the session cell and nothing else, so a list
  of one entry and the text in the composer are still there, where \<open>handleSignOut\<close>, the
  other path on which a session ends, empties both. When the next event then brings the
  session of another user and the refresh fails, that session holds the entry of the
  previous user, and no error is set.
\<close>

theorem session_change_absent_keeps_list:
  "entries state_hi = [entry0] \<and>
   onAuthStateChange_handler env_ok None state_hi = (state_hi\<lparr>session := None\<rparr>, []) \<and>
   entries (fst (onAuthStateChange_handler env_ok None state_hi)) = [entry0] \<and>
   entries (fst (onAuthStateChange_handler env_ok None state_hi)) \<noteq> [] \<and>
   currentEntry (fst (onAuthStateChange_handler env_ok None state_hi)) = str '' hi '' \<and>
   entries (fst (handleSignOut env_ok state_hi)) = [] \<and>
   currentEntry (fst (handleSignOut env_ok state_hi)) = [] \<and>
   user_id entry0 = str ''u1'' \<and> id_user (user session1) = str ''u2'' \<and>
   session (fst (onAuthStateChange_handler env_select_fails (Some session1)
     (fst (onAuthStateChange_handler env_ok None state_hi)))) = Some session1 \<and>
   entries (fst (onAuthStateChange_handler env_select_fails (Some session1)
     (fst (onAuthStateChange_handler env_ok None state_hi)))) = [entry0] \<and>
   error (fst (onAuthStateChange_handler env_select_fails (Some session1)
     (fst (onAuthStateChange_handler env_ok None state_hi)))) = None \<and>
   onAuthStateChange_handler env_ok (Some session1) state_anon =
     (state_anon\<lparr>session := Some session1, entries := [entry1, entry0]\<rparr>, [Select])"
proof -
  have f: "snd (select_response env_select_fails) = Some (ErrorInstance (str ''timeout''))"
    by (simp add: env_select_fails_def)
  have ok: "snd (select_response env_ok) = None"
    "fst (select_response env_ok) = Some [entry1, entry0]"
    by (simp_all add: env_ok_def)
  show ?thesis
    by (simp add: onAuthStateChange_handler_absent onAuthStateChange_handler_present
          loadEntries_failure [OF f] loadEntries_success [OF ok(1)] ok(2)
          handleSignOut_def state_hi_def initial_def entry0_def session1_def)
qed

subsection \<open>Deleting\<close>

text \<open>
  Claim C10 sets \<open>deleteEntry\<close> against \<open>saveEntry\<close> and \<open>listEntries\<close>, as the two that
  check for a session. \<open>loadEntries\<close> has no such check: with no session in the state it
  sends its select and replaces the list, also as the refresh at the end of a confirmed
  delete.
\<close>

theorem listEntries_session_check_counterexample:
  "session state_anon = None \<and>
   loadEntries env_ok state_anon = (state_anon\<lparr>entries := [entry1, entry0]\<rparr>, [Select]) \<and>
   snd (handleDeleteEntry env_ok (str ''e0'') state_anon) =
     [Confirm (str ''Are you sure you want to delete this entry?''), Delete (str ''e0''), Select]"
proof -
  have c: "confirm_answer env_ok" and d: "delete_response env_ok = None"
    and l: "snd (select_response env_ok) = None"
    "fst (select_response env_ok) = Some [entry1, entry0]"
    by (simp_all add: env_ok_def)
  show ?thesis
    by (simp add: handleDeleteEntry_deleted [OF c d] loadEntries_success [OF l(1)] l(2)
          state_anon_def initial_def)
qed

text \<open>
  Claim C10, amended. Unlike \<open>saveEntry\<close>, which sends nothing when no session is present,
  neither \<open>deleteEntry\<close> nor \<open>listEntries\<close> performs a session-presence check
  (\<open>loadEntries\<close> always sends its select). For every id and every state, also one with no
  session, the delete request is issued once the user confirms; when the user declines
  the confirmation prompt, no backend call is made and the whole client state is
  unchanged.
\<close>

theorem deleteEntry_no_session_check:
  "(confirm_answer w \<longrightarrow>
      deletes (snd (handleDeleteEntry w i s)) = [i] \<and>
      (\<exists>rest. snd (handleDeleteEntry w i s) =
         Confirm (str ''Are you sure you want to delete this entry?'') # Delete i # rest)) \<and>
   (\<not> confirm_answer w \<longrightarrow>
      fst (handleDeleteEntry w i s) = s \<and>
      snd (handleDeleteEntry w i s) =
        [Confirm (str ''Are you sure you want to delete this entry?'')] \<and>
      list_all (\<lambda>e. \<not> is_backend_call e) (snd (handleDeleteEntry w i s))) \<and>
   (\<exists>rest. snd (loadEntries w s) = Select # rest) \<and>
   (session_user (session s) = None \<longrightarrow> snd (handleSaveEntry w s) = [])"
proof -
  have yes: "confirm_answer w \<longrightarrow>
      deletes (snd (handleDeleteEntry w i s)) = [i] \<and>
      (\<exists>rest. snd (handleDeleteEntry w i s) =
         Confirm (str ''Are you sure you want to delete this entry?'') # Delete i # rest)"
    by (cases "delete_response w")
       (simp_all add: handleDeleteEntry_deleted handleDeleteEntry_failed deletes_append
          loadEntries_deletes)
  have no: "\<not> confirm_answer w \<longrightarrow>
      fst (handleDeleteEntry w i s) = s \<and>
      snd (handleDeleteEntry w i s) =
        [Confirm (str ''Are you sure you want to delete this entry?'')] \<and>
      list_all (\<lambda>e. \<not> is_backend_call e) (snd (handleDeleteEntry w i s))"
    by (simp add: handleDeleteEntry_declined)
  have list: "\<exists>rest. snd (loadEntries w s) = Select # rest"
    by (simp add: loadEntries_effects)
  have save: "session_user (session s) = None \<longrightarrow> snd (handleSaveEntry w s) = []"
    by (simp add: handleSaveEntry_def)
  show ?thesis
    by (rule conjI [OF yes conjI [OF no conjI [OF list save]]])
qed

theorem deleteEntry_no_session_check_witness:
  "session state_anon = None \<and> confirm_answer env_ok \<and> \<not> confirm_answer env_declined \<and>
   deletes (snd (handleDeleteEntry env_ok (str ''e0'') state_anon)) = [str ''e0''] \<and>
   fst (handleDeleteEntry env_declined (str ''e0'') state_anon) = state_anon \<and>
   snd (handleDeleteEntry env_declined (str ''e0'') state_anon) =
     [Confirm (str ''Are you sure you want to delete this entry?'')] \<and>
   snd (handleSaveEntry env_ok state_anon) = []"
proof -
  have c: "confirm_answer env_ok" "\<not> confirm_answer env_declined"
    "session_user (session state_anon) = None" "session state_anon = None"
    by (simp_all add: env_ok_def env_declined_def state_anon_def initial_def session_user_def)
  show ?thesis
    using c deleteEntry_no_session_check [of env_ok "str ''e0''" state_anon]
      deleteEntry_no_session_check [of env_declined "str ''e0''" state_anon]
    by simp
qed

end
